theory Spec2Isabelle
  imports Main "HOL-Library.Sublist"
begin

section \<open>Data model of examples/docqa/extract-then-chat.py\<close>

text \<open>
  The script declares two pydantic records.  A Python \<open>str\<close> is modelled as a HOL
  \<open>string\<close> whose characters stand for the code points 0..255; a Python \<open>int\<close> is
  unbounded, hence \<open>int\<close>.

  \<^verbatim>\<open>
  class BookInfo(BaseModel):
      title: str
      author: str
      year: int

  class BookInfoTool(ToolMessage):
      request: str = "book_info"
      purpose: str = "Collect <info> about Books"
      info: List[BookInfo]
  \<close>
\<close>

record BookInfo =
  title :: string
  author :: string
  year :: int

record BookInfoTool =
  request :: string
  purpose :: string
  info :: "BookInfo list"

text \<open>The constructor call \<open>cls(info=...)\<close> fills the two defaulted fields.\<close>

definition mk_BookInfoTool :: "BookInfo list \<Rightarrow> BookInfoTool" where
  "mk_BookInfoTool bs =
     \<lparr>request = ''book_info'', purpose = ''Collect <info> about Books'', info = bs\<rparr>"

text \<open>\<open>BookInfoTool.examples\<close>: the one example payload of the class.\<close>

definition examples :: "BookInfoTool list" where
  "examples =
     [mk_BookInfoTool
        [\<lparr>title = ''The Hobbit'', author = ''J.R.R. Tolkien'', year = 1937\<rparr>,
         \<lparr>title = ''The Great Gatsby'', author = ''F. Scott Fitzgerald'', year = 1925\<rparr>]]"

section \<open>The tool's own handler\<close>

text \<open>
  \<^verbatim>\<open>
  def handle(self) -> str:
      """Exit task and pass tool to parent"""
      return DONE + " " + PASS
  \<close>
  \<open>DONE\<close> and \<open>PASS\<close> are imported from \<open>langroid.utils.constants\<close>, which is
  not part of the file; they are parameters of the model.
\<close>

definition handle :: "string \<Rightarrow> string \<Rightarrow> BookInfoTool \<Rightarrow> string" where
  "handle DONE PASS self = DONE @ '' '' @ PASS"

section \<open>Python's string forms\<close>

text \<open>
  \<open>str(msg.info)\<close> is the \<open>str\<close> of a list, which joins the \<open>repr\<close> of its
  elements with a comma and a space between square brackets.  The \<open>repr\<close> of a pydantic
  model is its class name and the fields as \<open>name=repr(value)\<close>, comma separated,
  in parentheses.  Both are the runtime's, not the script's; they are written out
  here since the handler's output is made of them.
\<close>

subsection \<open>\<open>repr\<close> of an \<open>int\<close>\<close>

definition digit_char :: "nat \<Rightarrow> char" where
  "digit_char n = ''0123456789'' ! n"

fun str_nat :: "nat \<Rightarrow> string" where
  "str_nat n = (if n < 10 then [digit_char n] else str_nat (n div 10) @ [digit_char (n mod 10)])"

declare str_nat.simps [simp del]

definition str_int :: "int \<Rightarrow> string" where
  "str_int i = (if i < 0 then CHR ''-'' # str_nat (nat (- i)) else str_nat (nat i))"

subsection \<open>\<open>repr\<close> of a \<open>str\<close>\<close>

text \<open>
  CPython's \<open>unicode_repr\<close>: the delimiter is a single quote unless the string has a
  single quote and no double quote; the delimiter and the backslash are escaped with a
  backslash; tab, newline and carriage return become \<open>\t\<close>, \<open>\n\<close>, \<open>\r\<close>; the
  other characters that are not printable become \<open>\xhh\<close>; the rest are copied.  Among
  the code points below 256 the printable ones are 32..126 and 161..255 except 173.
\<close>

definition isprintable :: "char \<Rightarrow> bool" where
  "isprintable ch =
     (let n = (of_char ch :: nat) in (32 \<le> n \<and> n < 127) \<or> (161 \<le> n \<and> n \<noteq> 173))"

definition hexdigit :: "nat \<Rightarrow> char" where
  "hexdigit n = ''0123456789abcdef'' ! n"

definition hex_escape :: "char \<Rightarrow> string" where
  "hex_escape ch =
     (let n = (of_char ch :: nat)
      in [CHR 0x5C, CHR ''x'', hexdigit (n div 16), hexdigit (n mod 16)])"

definition repr_char :: "char \<Rightarrow> char \<Rightarrow> string" where
  "repr_char quote ch =
     (if ch = quote \<or> ch = CHR 0x5C then [CHR 0x5C, ch]
      else if ch = CHR 0x09 then [CHR 0x5C, CHR ''t'']
      else if ch = CHR 0x0A then [CHR 0x5C, CHR ''n'']
      else if ch = CHR 0x0D then [CHR 0x5C, CHR ''r'']
      else if (of_char ch :: nat) < 32 \<or> ch = CHR 0x7F then hex_escape ch
      else if (of_char ch :: nat) < 127 then [ch]
      else if \<not> isprintable ch then hex_escape ch
      else [ch])"

definition repr_quote :: "string \<Rightarrow> char" where
  "repr_quote s = (if CHR 0x27 \<in> set s \<and> CHR 0x22 \<notin> set s then CHR 0x22 else CHR 0x27)"

definition repr_str :: "string \<Rightarrow> string" where
  "repr_str s = repr_quote s # concat (map (repr_char (repr_quote s)) s) @ [repr_quote s]"

subsection \<open>\<open>repr\<close> of a record and \<open>str\<close> of a list\<close>

definition repr_BookInfo :: "BookInfo \<Rightarrow> string" where
  "repr_BookInfo b =
     ''BookInfo(title='' @ repr_str (title b) @ '', author='' @ repr_str (author b)
       @ '', year='' @ str_int (year b) @ '')''"

fun join :: "string \<Rightarrow> string list \<Rightarrow> string" where
  "join sep [] = []"
| "join sep [x] = x"
| "join sep (x # y # ys) = x @ sep @ join sep (y # ys)"

definition str_list :: "BookInfo list \<Rightarrow> string" where
  "str_list bs = ''['' @ join '', '' (map repr_BookInfo bs) @ '']''"

subsection \<open>\<open>str.replace\<close>\<close>

text \<open>
  \<open>s.replace(old, new)\<close> replaces the occurrences of \<open>old\<close> from left to right,
  without overlap; an empty \<open>old\<close> matches before every character and at the end.
\<close>

function replace_from :: "string \<Rightarrow> string \<Rightarrow> string \<Rightarrow> string" where
  "replace_from old new s =
     (if old = [] \<or> s = [] then s
      else if prefix old s then new @ replace_from old new (drop (length old) s)
      else hd s # replace_from old new (tl s))"
  by pat_completeness auto
termination
  by (relation "measure (\<lambda>(old, new, s). length s)") (auto simp: neq_Nil_conv)

declare replace_from.simps [simp del]

definition replace :: "string \<Rightarrow> string \<Rightarrow> string \<Rightarrow> string" where
  "replace s old new =
     (if old = [] then new @ concat (map (\<lambda>c. c # new) s) else replace_from old new s)"

section \<open>The Assistant's handler of the tool\<close>

text \<open>
  \<^verbatim>\<open>
  def book_info(self, msg: BookInfoTool) -> str:
      info_str = str(msg.info).replace("{", "[").replace("}", "]")
      return f"""{SEND_TO}LLM
          Below is INFO ...
          INFO: 
          {info_str} 
          """
  \<close>
  \<open>SEND_TO\<close> is imported from \<open>langroid.utils.constants\<close> and is a parameter.  The
  method reads nothing of the agent and assigns nothing; the model takes the agent and
  gives it back with the text.
\<close>

definition info_str :: "BookInfoTool \<Rightarrow> string" where
  "info_str msg = replace (replace (str_list (info msg)) ''{'' ''['') ''}'' '']''"

definition nl :: string where
  "nl = [CHR 0x0A]"

definition book_info :: "string \<Rightarrow> 'agent \<Rightarrow> BookInfoTool \<Rightarrow> string \<times> 'agent" where
  "book_info SEND_TO self msg =
     (SEND_TO @ ''LLM'' @ nl
      @ ''        Below is INFO about various books, you received from the Extractor.'' @ nl
      @ ''        Now ask the user what help they need, and respond ONLY based on this INFO.'' @ nl
      @ ''        '' @ nl
      @ ''        INFO: '' @ nl
      @ ''        '' @ info_str msg @ '' '' @ nl
      @ ''        '',
      self)"

section \<open>The Extractor's fallback handler\<close>

text \<open>
  \<^verbatim>\<open>
  def handle_message_fallback(self, msg: str | ChatDocument) -> str | ChatDocument | None:
      """Nudge LLM when it fails to use book_info correctly"""
      if self.has_tool_message_attempt(msg):
          return """
          You must use the "book_info" tool to present the info.
          ...
          """
  \<close>
  \<open>has_tool_message_attempt\<close> is a method of the base class \<open>ChatAgent\<close>, outside the
  file: it is a parameter.  It is called on the agent with the message, so it may read
  and write whatever it reaches from them; the model's state stands for all of that
  (the agent's fields, the message object's, anything else), and the check is a
  function of the state and the message that gives its verdict and the state after the
  call.  Falling off the end of the method returns \<open>None\<close>.
\<close>

definition nudge :: string where
  \<open>nudge =
     nl
     @ ''            You must use the "book_info" tool to present the info.'' @ nl
     @ ''            You either forgot to use it, or you used it with the wrong format.'' @ nl
     @ ''            Make sure all fields are filled out and pay attention to the '' @ nl
     @ ''            required types of the fields.'' @ nl
     @ ''            ''\<close>

definition handle_message_fallback ::
  "('state \<Rightarrow> 'msg \<Rightarrow> bool \<times> 'state) \<Rightarrow> 'state \<Rightarrow> 'msg \<Rightarrow> string option \<times> 'state" where
  "handle_message_fallback has_tool_message_attempt self msg =
     (case has_tool_message_attempt self msg of
        (True, self') \<Rightarrow> (Some nudge, self')
      | (False, self') \<Rightarrow> (None, self'))"

section \<open>The command-line entry point\<close>

text \<open>
  \<open>chat\<close> builds configuration objects from literals and its three parameters and
  makes a fixed sequence of library calls.  The objects are records holding the
  keyword arguments the script passes (a subclass as a record extension; the fields
  \<open>debug\<close> and \<open>cache\<close> of \<open>Settings\<close> carry the class name, \<open>debug\<close> being
  a parameter of \<open>chat\<close> too); the effect
  of \<open>chat\<close> is the list of library calls it makes, in order.  The prompt texts (the
  printed greeting and the two system messages) are left out.
\<close>

record Settings =
  Settings_debug :: bool
  Settings_cache :: bool

record OpenAIGPTConfig =
  chat_model :: string
  chat_context_length :: nat

record ParsingConfig =
  chunk_size :: nat
  overlap :: nat
  n_similar_docs :: nat
  n_neighbor_ids :: nat

record SentenceTransformerEmbeddingsConfig =
  model_type :: string
  model_name :: string

record LanceDBConfig =
  collection_name :: string
  replace_collection :: bool
  storage_path :: string
  embedding :: SentenceTransformerEmbeddingsConfig

record ChatAgentConfig =
  llm :: OpenAIGPTConfig
  vecdb :: "LanceDBConfig option"

record DocChatAgentConfig = ChatAgentConfig +
  n_neighbor_chunks :: nat
  parsing :: ParsingConfig
  cross_encoder_reranking_model :: string

datatype Entity = AGENT | LLM | USER | SYSTEM

datatype agent = doc_agent | extractor_agent | assistant_agent

datatype task = doc_task | extractor_task | assistant_task

datatype tool = BookInfoTool | RecipientTool

record Task_args =
  name :: string
  interactive :: "bool option"
  done_if_no_response :: "Entity list"
  done_if_response :: "Entity list"

datatype call =
    Print
  | Load_dotenv
  | Set_global Settings
  | New_DocChatAgent agent DocChatAgentConfig
  | Ingest_doc_paths agent "string list"
  | New_ChatAgent agent ChatAgentConfig
  | Enable_message agent tool "bool option" "bool option"
  | New_Task task agent Task_args
  | Add_sub_task task "task list"
  | Run task

text \<open>\<open>model or lm.OpenAIChatModel.GPT4_TURBO\<close>: the empty string is the one falsy \<open>str\<close>.\<close>

definition py_or :: "string \<Rightarrow> string \<Rightarrow> string" where
  "py_or x y = (if x = [] then y else x)"

definition llm_cfg :: "string \<Rightarrow> string \<Rightarrow> OpenAIGPTConfig" where
  "llm_cfg GPT4_TURBO model =
     \<lparr>chat_model = py_or model GPT4_TURBO, chat_context_length = 16000\<rparr>"

definition vecdb_cfg :: LanceDBConfig where
  "vecdb_cfg =
     \<lparr>collection_name = ''book_info'',
      replace_collection = True,
      storage_path = ''.lancedb/data/'',
      embedding = \<lparr>model_type = ''sentence-transformer'',
                   model_name = ''BAAI/bge-large-en-v1.5''\<rparr>\<rparr>"

definition doc_agent_cfg :: "string \<Rightarrow> string \<Rightarrow> DocChatAgentConfig" where
  "doc_agent_cfg GPT4_TURBO model =
     \<lparr>llm = llm_cfg GPT4_TURBO model,
      vecdb = Some vecdb_cfg,
      n_neighbor_chunks = 2,
      parsing = \<lparr>chunk_size = 50, overlap = 10, n_similar_docs = 3, n_neighbor_ids = 4\<rparr>,
      cross_encoder_reranking_model = []\<rparr>"

text \<open>
  \<^verbatim>\<open>
  def chat(model: str = "", debug: bool = False, no_cache: bool = False):
  \<close>
  \<open>GPT4_TURBO\<close>, a member of the library's enumeration of model names, is a
  parameter.
\<close>

definition chat :: "string \<Rightarrow> string \<Rightarrow> bool \<Rightarrow> bool \<Rightarrow> call list" where
  "chat GPT4_TURBO model debug no_cache =
     [Print,
      Load_dotenv,
      Set_global \<lparr>Settings_debug = debug, Settings_cache = \<not> no_cache\<rparr>,
      New_DocChatAgent doc_agent (doc_agent_cfg GPT4_TURBO model),
      Ingest_doc_paths doc_agent [''examples/docqa/books.txt''],
      New_Task doc_task doc_agent
        \<lparr>name = ''DocAgent'', interactive = None,
         done_if_no_response = [LLM], done_if_response = [LLM]\<rparr>,
      New_ChatAgent extractor_agent \<lparr>llm = llm_cfg GPT4_TURBO model, vecdb = None\<rparr>,
      Enable_message extractor_agent BookInfoTool None None,
      New_Task extractor_task extractor_agent
        \<lparr>name = ''Extractor'', interactive = Some False,
         done_if_no_response = [], done_if_response = []\<rparr>,
      New_ChatAgent assistant_agent \<lparr>llm = llm_cfg GPT4_TURBO model, vecdb = None\<rparr>,
      Enable_message assistant_agent RecipientTool None None,
      Enable_message assistant_agent BookInfoTool (Some False) (Some True),
      New_Task assistant_task assistant_agent
        \<lparr>name = ''Assistant'', interactive = Some True,
         done_if_no_response = [], done_if_response = []\<rparr>,
      Add_sub_task assistant_task [extractor_task],
      Add_sub_task extractor_task [doc_task],
      Run assistant_task]"

text \<open>
  A call of \<open>chat\<close> with keyword arguments, any of which may be left out (\<open>None\<close>
  here): Python then binds the parameter to the default of the signature, \<open>""\<close>,
  \<open>False\<close>, \<open>False\<close>.  The arguments are values of the annotated types.
  \<open>Fire(chat)\<close> makes one command-line option of each parameter and calls \<open>chat\<close>
  with the options given; how that library reads the text of an option into a value is
  not in the file and is not modelled.
\<close>

definition chat_call ::
  "string \<Rightarrow> string option \<Rightarrow> bool option \<Rightarrow> bool option \<Rightarrow> call list" where
  "chat_call GPT4_TURBO model debug no_cache =
     chat GPT4_TURBO
       (case model of None \<Rightarrow> [] | Some m \<Rightarrow> m)
       (case debug of None \<Rightarrow> False | Some d \<Rightarrow> d)
       (case no_cache of None \<Rightarrow> False | Some n \<Rightarrow> n)"

subsection \<open>Reading the calls\<close>

fun the_settings :: "call list \<Rightarrow> Settings list" where
  "the_settings [] = []"
| "the_settings (Set_global s # cs) = s # the_settings cs"
| "the_settings (_ # cs) = the_settings cs"

fun the_llm_cfgs :: "call list \<Rightarrow> OpenAIGPTConfig list" where
  "the_llm_cfgs [] = []"
| "the_llm_cfgs (New_DocChatAgent _ c # cs) = llm c # the_llm_cfgs cs"
| "the_llm_cfgs (New_ChatAgent _ c # cs) = llm c # the_llm_cfgs cs"
| "the_llm_cfgs (_ # cs) = the_llm_cfgs cs"

fun the_vecdbs :: "call list \<Rightarrow> (agent \<times> LanceDBConfig option) list" where
  "the_vecdbs [] = []"
| "the_vecdbs (New_DocChatAgent a c # cs) = (a, vecdb c) # the_vecdbs cs"
| "the_vecdbs (New_ChatAgent a c # cs) = (a, vecdb c) # the_vecdbs cs"
| "the_vecdbs (_ # cs) = the_vecdbs cs"

text \<open>
  The tasks the script declares as sub-tasks of \<open>p\<close>: the arguments of its
  \<open>add_sub_task\<close> calls on \<open>p\<close>, in the order of the calls.  What the method
  does with them is the library's.
\<close>

fun sub_tasks :: "call list \<Rightarrow> task \<Rightarrow> task list" where
  "sub_tasks [] p = []"
| "sub_tasks (Add_sub_task q ts # cs) p = (if q = p then ts else []) @ sub_tasks cs p"
| "sub_tasks (_ # cs) p = sub_tasks cs p"

fun the_tasks :: "call list \<Rightarrow> (task \<times> agent \<times> string) list" where
  "the_tasks [] = []"
| "the_tasks (New_Task t a args # cs) = (t, a, name args) # the_tasks cs"
| "the_tasks (_ # cs) = the_tasks cs"

fun runs :: "call list \<Rightarrow> task list" where
  "runs [] = []"
| "runs (Run t # cs) = t # runs cs"
| "runs (_ # cs) = runs cs"

subsection \<open>The persisted collection\<close>

text \<open>
  Modelled from the spec: the library's vector store, which keeps the embedding index
  on disk and is not in the file.  By the spec "a local embedding index directory is
  created/overwritten on each run (collection is configured to be replaced rather than
  appended)", and "a single local plaintext path is ingested as the knowledge source".
  The store maps a storage path and a collection name to what the collection holds,
  given by the paths of the documents ingested into it.  Making an agent with a store
  configuration opens its collection: one configured to be replaced starts empty
  whatever it held, one that is not keeps what it holds and is created empty when it is
  not there.  Ingesting adds to the collection of the agent's configuration.
\<close>

type_synonym store = "string \<times> string \<Rightarrow> string list option"

definition open_collection :: "LanceDBConfig \<Rightarrow> store \<Rightarrow> store" where
  "open_collection c st =
     (if replace_collection c then st((storage_path c, collection_name c) \<mapsto> [])
      else (case st (storage_path c, collection_name c) of
              None \<Rightarrow> st((storage_path c, collection_name c) \<mapsto> [])
            | Some _ \<Rightarrow> st))"

definition add_to_collection :: "LanceDBConfig \<Rightarrow> string list \<Rightarrow> store \<Rightarrow> store" where
  "add_to_collection c ps st =
     st((storage_path c, collection_name c) \<mapsto>
          (case st (storage_path c, collection_name c) of None \<Rightarrow> [] | Some xs \<Rightarrow> xs) @ ps)"

text \<open>
  The store after the calls of a run, from the store before it; the second argument
  keeps the store configuration each agent was made with.
\<close>

fun run_store :: "call list \<Rightarrow> (agent \<Rightarrow> LanceDBConfig option) \<Rightarrow> store \<Rightarrow> store" where
  "run_store [] cfg st = st"
| "run_store (New_DocChatAgent a c # cs) cfg st =
     (case vecdb c of
        None \<Rightarrow> run_store cs (cfg(a := None)) st
      | Some v \<Rightarrow> run_store cs (cfg(a \<mapsto> v)) (open_collection v st))"
| "run_store (New_ChatAgent a c # cs) cfg st =
     (case vecdb c of
        None \<Rightarrow> run_store cs (cfg(a := None)) st
      | Some v \<Rightarrow> run_store cs (cfg(a \<mapsto> v)) (open_collection v st))"
| "run_store (Ingest_doc_paths a ps # cs) cfg st =
     (case cfg a of
        None \<Rightarrow> run_store cs cfg st
      | Some v \<Rightarrow> run_store cs cfg (add_to_collection v ps st))"
| "run_store (_ # cs) cfg st = run_store cs cfg st"

definition run_chat :: "string \<Rightarrow> string \<Rightarrow> bool \<Rightarrow> bool \<Rightarrow> store \<Rightarrow> store" where
  "run_chat GPT4_TURBO model debug no_cache st =
     run_store (chat GPT4_TURBO model debug no_cache) (\<lambda>a. None) st"

section \<open>Vocabulary of the properties\<close>

text \<open>What the two \<open>replace\<close> calls do to one character.\<close>

definition brace_subst :: "char \<Rightarrow> char" where
  "brace_subst c = (if c = CHR ''{'' then CHR ''['' else if c = CHR ''}'' then CHR '']'' else c)"

definition brace_free :: "string \<Rightarrow> bool" where
  "brace_free s = (CHR ''{'' \<notin> set s \<and> CHR ''}'' \<notin> set s)"

text \<open>
  The strings that \<open>repr\<close> copies between its quotes as they are: every character
  printable and not a backslash, and not both kinds of quote in the string.
\<close>

definition copied_by_repr :: "string \<Rightarrow> bool" where
  "copied_by_repr s =
     (list_all (\<lambda>c. isprintable c \<and> c \<noteq> CHR 0x5C) s
      \<and> \<not> (CHR 0x27 \<in> set s \<and> CHR 0x22 \<in> set s))"

text \<open>
  Three checks to try the fallback handler on.  The first flags the messages that
  start with a brace and touches nothing.  The second flags the same messages and
  keeps the ones it flagged, as a check that stores what it found with the message
  does.  The third is for a state that lists the tools the agent has enabled: it flags
  the messages that name one of them.
\<close>

definition brace_check :: "'state \<Rightarrow> string \<Rightarrow> bool \<times> 'state" where
  "brace_check st m = (prefix ''{'' m, st)"



section \<open>Auxiliary lemmas\<close>

subsection \<open>Replacing one character by another is a map\<close>

lemma replace_from_char:
  "replace_from [a] [b] s = map (\<lambda>c. if c = a then b else c) s"
proof (induction s)
  case Nil
  show ?case by (simp add: replace_from.simps)
next
  case (Cons x xs)
  show ?case
  proof (cases "x = a")
    case True
    then show ?thesis using Cons by (subst replace_from.simps) simp
  next
    case False
    then show ?thesis using Cons by (subst replace_from.simps) simp
  qed
qed

lemma replace_char: "replace s [a] [b] = map (\<lambda>c. if c = a then b else c) s"
  by (simp add: replace_def replace_from_char)

lemma info_str_map: "info_str msg = map brace_subst (str_list (info msg))"
  by (simp add: info_str_def replace_char brace_subst_def comp_def)

lemma brace_free_info_str: "brace_free (info_str msg)"
  by (auto simp: info_str_map brace_free_def brace_subst_def)

lemma sublist_join: "x \<in> set xs \<Longrightarrow> sublist x (join sep xs)"
proof (induction sep xs rule: join.induct)
  case (1 sep)
  then show ?case by simp
next
  case (2 sep y)
  then show ?case by simp
next
  case (3 sep y z zs)
  show ?case
  proof (cases "x = y")
    case True
    then show ?thesis by simp
  next
    case False
    with 3 have "sublist x (join sep (z # zs))" by simp
    then obtain ps ss where "join sep (z # zs) = ps @ x @ ss" by (auto simp: sublist_def)
    then have "join sep (y # z # zs) = (y @ sep @ ps) @ x @ ss" by simp
    then show ?thesis unfolding sublist_def by blast
  qed
qed

lemma sublist_str_list: "b \<in> set bs \<Longrightarrow> sublist (repr_BookInfo b) (str_list bs)"
proof -
  assume "b \<in> set bs"
  then have "sublist (repr_BookInfo b) (join '', '' (map repr_BookInfo bs))"
    by (intro sublist_join) simp
  then obtain ps ss where "join '', '' (map repr_BookInfo bs) = ps @ repr_BookInfo b @ ss"
    by (auto simp: sublist_def)
  then have "str_list bs = (''['' @ ps) @ repr_BookInfo b @ (ss @ '']'')"
    by (simp add: str_list_def)
  then show ?thesis unfolding sublist_def by blast
qed

lemma sublist_title: "sublist (repr_str (title b)) (repr_BookInfo b)"
proof -
  have "repr_BookInfo b = ''BookInfo(title='' @ repr_str (title b)
      @ ('', author='' @ repr_str (author b) @ '', year='' @ str_int (year b) @ '')'')"
    by (simp add: repr_BookInfo_def)
  then show ?thesis unfolding sublist_def by blast
qed

lemma sublist_author: "sublist (repr_str (author b)) (repr_BookInfo b)"
proof -
  have "repr_BookInfo b = (''BookInfo(title='' @ repr_str (title b) @ '', author='')
      @ repr_str (author b) @ ('', year='' @ str_int (year b) @ '')'')"
    by (simp add: repr_BookInfo_def)
  then show ?thesis unfolding sublist_def by blast
qed

lemma sublist_year: "sublist (str_int (year b)) (repr_BookInfo b)"
proof -
  have "repr_BookInfo b = (''BookInfo(title='' @ repr_str (title b) @ '', author=''
      @ repr_str (author b) @ '', year='') @ str_int (year b) @ '')''"
    by (simp add: repr_BookInfo_def)
  then show ?thesis unfolding sublist_def by blast
qed

lemma digit_char_brace: "n < 10 \<Longrightarrow> brace_subst (digit_char n) = digit_char n"
proof -
  assume "n < 10"
  then have "n \<in> {0,1,2,3,4,5,6,7,8,9}" by auto
  then show ?thesis by (auto simp: digit_char_def brace_subst_def)
qed

lemma str_nat_brace: "map brace_subst (str_nat n) = str_nat n"
proof (induction n rule: str_nat.induct)
  case (1 n)
  show ?case
  proof (cases "n < 10")
    case True
    then show ?thesis by (subst (1 2) str_nat.simps) (simp add: digit_char_brace)
  next
    case False
    then have "map brace_subst (str_nat (n div 10)) = str_nat (n div 10)" using 1 by simp
    with False show ?thesis by (subst (1 2) str_nat.simps) (simp add: digit_char_brace)
  qed
qed

lemma str_int_brace: "map brace_subst (str_int i) = str_int i"
  by (simp add: str_int_def str_nat_brace brace_subst_def)

lemma isprintable_bounds:
  assumes "isprintable c"
  shows "32 \<le> (of_char c :: nat)" and "(of_char c :: nat) \<noteq> 127"
  using assms unfolding isprintable_def Let_def by linarith+

lemma isprintable_not_control:
  assumes "isprintable c"
  shows "c \<noteq> CHR 0x09" and "c \<noteq> CHR 0x0A" and "c \<noteq> CHR 0x0D" and "c \<noteq> CHR 0x7F"
proof -
  note b = isprintable_bounds [OF assms]
  show "c \<noteq> CHR 0x09" using b(1) by (intro notI) simp
  show "c \<noteq> CHR 0x0A" using b(1) by (intro notI) simp
  show "c \<noteq> CHR 0x0D" using b(1) by (intro notI) simp
  show "c \<noteq> CHR 0x7F" using b(2) by (intro notI) simp
qed

lemma repr_char_copied:
  assumes "isprintable c" and "c \<noteq> CHR 0x5C" and "c \<noteq> q"
  shows "repr_char q c = [c]"
proof -
  have "\<not> (of_char c :: nat) < 32" using isprintable_bounds(1) [OF assms(1)] by simp
  then show ?thesis
    unfolding repr_char_def
    using assms isprintable_not_control [OF assms(1)] by simp
qed

lemma repr_str_copied:
  assumes "copied_by_repr s"
  shows "repr_str s = repr_quote s # s @ [repr_quote s]"
proof -
  have q: "repr_quote s \<notin> set s"
    using assms by (auto simp: copied_by_repr_def repr_quote_def)
  have "concat (map (repr_char (repr_quote s)) s) = concat (map (\<lambda>c. [c]) s)"
  proof (rule arg_cong [where f = concat], rule map_cong [OF refl])
    fix c assume c: "c \<in> set s"
    then have "isprintable c" "c \<noteq> CHR 0x5C"
      using assms by (auto simp: copied_by_repr_def list_all_iff)
    moreover have "c \<noteq> repr_quote s" using q c by auto
    ultimately show "repr_char (repr_quote s) c = [c]" by (rule repr_char_copied)
  qed
  also have "\<dots> = s" by (induction s) auto
  finally show ?thesis by (simp add: repr_str_def)
qed

lemma brace_subst_id: "brace_free s \<Longrightarrow> map brace_subst s = s"
  by (induction s) (auto simp: brace_free_def brace_subst_def)

subsection \<open>The shape of the handler's text\<close>

lemma sublist_chain: "sublist xs ys \<Longrightarrow> sublist ys zs \<Longrightarrow> sublist xs zs"
proof -
  assume "sublist xs ys" and "sublist ys zs"
  then obtain p s p' s' where "ys = p @ xs @ s" and "zs = p' @ ys @ s'"
    by (auto simp: sublist_def)
  then have "zs = (p' @ p) @ xs @ (s @ s')" by simp
  then show ?thesis unfolding sublist_def by blast
qed

lemma book_info_split:
  "fst (book_info SEND_TO self msg) =
     (SEND_TO @ ''LLM'' @ nl
      @ ''        Below is INFO about various books, you received from the Extractor.'' @ nl
      @ ''        Now ask the user what help they need, and respond ONLY based on this INFO.'' @ nl
      @ ''        '' @ nl
      @ ''        INFO: '' @ nl
      @ ''        '') @ info_str msg @ ('' '' @ nl @ ''        '')"
  by (simp add: book_info_def)

lemma sublist_info_str: "sublist (info_str msg) (fst (book_info SEND_TO self msg))"
  unfolding book_info_split by (rule sublist_appendI)

lemma prefix_book_info: "prefix (SEND_TO @ ''LLM'') (fst (book_info SEND_TO self msg))"
  by (simp add: book_info_def)

lemma suffix_book_info:
  "suffix (info_str msg @ '' '' @ nl @ ''        '') (fst (book_info SEND_TO self msg))"
  unfolding book_info_split suffix_def by blast

lemma brace_free_append: "brace_free (xs @ ys) = (brace_free xs \<and> brace_free ys)"
  by (auto simp: brace_free_def)

lemma brace_free_book_info:
  "brace_free SEND_TO \<Longrightarrow> brace_free (fst (book_info SEND_TO self msg))"
  unfolding book_info_split brace_free_append
  by (simp add: brace_free_info_str) (simp add: brace_free_def nl_def)

lemma not_sublist_brace: "brace_free ys \<Longrightarrow> \<not> brace_free xs \<Longrightarrow> \<not> sublist xs ys"
  using set_mono_sublist [of xs ys] by (auto simp: brace_free_def)

lemma sublist_field_info_str:
  assumes "b \<in> set (info msg)" and "sublist f (repr_BookInfo b)"
  shows "sublist (map brace_subst f) (info_str msg)"
proof -
  have "sublist f (str_list (info msg))"
    using assms(2) sublist_str_list [OF assms(1)] by (rule sublist_chain)
  then show ?thesis unfolding info_str_map by (rule map_mono_sublist)
qed

lemma sublist_map_repr_str:
  assumes "copied_by_repr s"
  shows "sublist (map brace_subst s) (map brace_subst (repr_str s))"
proof -
  have "repr_str s = [repr_quote s] @ s @ [repr_quote s]"
    using repr_str_copied [OF assms] by simp
  then have "sublist s (repr_str s)" unfolding sublist_def by blast
  then show ?thesis by (rule map_mono_sublist)
qed

lemma rendered_field:
  assumes "b \<in> set (info msg)" and "sublist f (repr_BookInfo b)"
  shows "sublist (map brace_subst f) (fst (book_info SEND_TO self msg))"
  using sublist_field_info_str [OF assms] sublist_info_str by (rule sublist_chain)

lemma verbatim_field:
  assumes b: "b \<in> set (info msg)" and r: "sublist (repr_str s) (repr_BookInfo b)"
    and c: "copied_by_repr s" and f: "brace_free s"
  shows "sublist s (fst (book_info SEND_TO self msg))"
proof -
  have "sublist (map brace_subst s) (map brace_subst (repr_str s))"
    using c by (rule sublist_map_repr_str)
  then have "sublist (map brace_subst s) (fst (book_info SEND_TO self msg))"
    using rendered_field [OF b r] by (rule sublist_chain)
  then show ?thesis unfolding brace_subst_id [OF f] .
qed

lemma year_field:
  assumes "b \<in> set (info msg)"
  shows "sublist (str_int (year b)) (fst (book_info SEND_TO self msg))"
  using rendered_field [OF assms sublist_year] unfolding str_int_brace .

section \<open>Properties\<close>

text \<open>
  C6.  The tool's \<open>handle\<close> method is a constant function: whatever the payload (any
  number of records, any field values), it returns the DONE marker, one space, and the
  PASS marker; two payloads always give the same string, so nothing of a record's
  contents is restated in it.
\<close>

theorem handle_constant:
  "handle DONE PASS msg = DONE @ '' '' @ PASS \<and> handle DONE PASS msg = handle DONE PASS msg'"
  by (simp add: handle_def)

text \<open>
  C1, as the code has it.  The text returned by \<open>book_info\<close> is one string that
  starts with the routing prefix \<open>SEND_TO\<close> followed by \<open>LLM\<close>, and ends with the
  string form of the record list, one space, a newline and eight spaces; no other
  marker comes after the list.  For every record of the payload the text contains the
  decimal form of the year, and the title and the author whenever \<open>repr\<close> copies them
  and they have no curly brace.  The text has no curly brace when \<open>SEND_TO\<close> has none.
\<close>

theorem book_info_text_block:
  "(\<forall>b \<in> set (info msg).
      (copied_by_repr (title b) \<and> brace_free (title b)
         \<longrightarrow> sublist (title b) (fst (book_info SEND_TO self msg)))
    \<and> (copied_by_repr (author b) \<and> brace_free (author b)
         \<longrightarrow> sublist (author b) (fst (book_info SEND_TO self msg)))
    \<and> sublist (str_int (year b)) (fst (book_info SEND_TO self msg)))
   \<and> (brace_free SEND_TO \<longrightarrow> brace_free (fst (book_info SEND_TO self msg)))
   \<and> prefix (SEND_TO @ ''LLM'') (fst (book_info SEND_TO self msg))
   \<and> suffix (info_str msg @ '' '' @ nl @ ''        '') (fst (book_info SEND_TO self msg))"
proof (intro conjI ballI impI)
  fix b
  assume b: "b \<in> set (info msg)"
  {
    assume "copied_by_repr (title b) \<and> brace_free (title b)"
    then show "sublist (title b) (fst (book_info SEND_TO self msg))"
      using verbatim_field [OF b sublist_title] by (elim conjE)
  }
  {
    assume "copied_by_repr (author b) \<and> brace_free (author b)"
    then show "sublist (author b) (fst (book_info SEND_TO self msg))"
      using verbatim_field [OF b sublist_author] by (elim conjE)
  }
  show "sublist (str_int (year b)) (fst (book_info SEND_TO self msg))"
    using b by (rule year_field)
next
  assume "brace_free SEND_TO"
  then show "brace_free (fst (book_info SEND_TO self msg))" by (rule brace_free_book_info)
next
  show "prefix (SEND_TO @ ''LLM'') (fst (book_info SEND_TO self msg))"
    by (rule prefix_book_info)
next
  show "suffix (info_str msg @ '' '' @ nl @ ''        '') (fst (book_info SEND_TO self msg))"
    by (rule suffix_book_info)
qed

text \<open>The class's example payload, with \<open>SEND_TO:\<close> for the routing constant.\<close>

theorem book_info_text_block_witness:
  "sublist ''The Hobbit'' (fst (book_info ''SEND_TO:'' () (hd examples)))
   \<and> sublist ''F. Scott Fitzgerald'' (fst (book_info ''SEND_TO:'' () (hd examples)))
   \<and> sublist ''1925'' (fst (book_info ''SEND_TO:'' () (hd examples)))
   \<and> brace_free (fst (book_info ''SEND_TO:'' () (hd examples)))
   \<and> prefix ''SEND_TO:LLM'' (fst (book_info ''SEND_TO:'' () (hd examples)))"
proof -
  let ?hobbit = "\<lparr>title = ''The Hobbit'', author = ''J.R.R. Tolkien'', year = 1937\<rparr>"
  let ?gatsby = "\<lparr>title = ''The Great Gatsby'', author = ''F. Scott Fitzgerald'', year = 1925\<rparr>"
  let ?out = "fst (book_info ''SEND_TO:'' () (hd examples))"
  have i: "info (hd examples) = [?hobbit, ?gatsby]"
    by (simp add: examples_def mk_BookInfoTool_def)
  have h: "?hobbit \<in> set (info (hd examples))" and g: "?gatsby \<in> set (info (hd examples))"
    unfolding i by simp_all
  have c1: "copied_by_repr (title ?hobbit) \<and> brace_free (title ?hobbit)"
    by (simp add: copied_by_repr_def brace_free_def isprintable_def)
  have c2: "copied_by_repr (author ?gatsby) \<and> brace_free (author ?gatsby)"
    by (simp add: copied_by_repr_def brace_free_def isprintable_def)
  have y: "str_int (year ?gatsby) = ''1925''" by code_simp
  have s: "brace_free ''SEND_TO:''" by (simp add: brace_free_def)
  note t = book_info_text_block [of "hd examples" "''SEND_TO:''" "()"]
  from t have all: "\<forall>b \<in> set (info (hd examples)).
      (copied_by_repr (title b) \<and> brace_free (title b) \<longrightarrow> sublist (title b) ?out)
    \<and> (copied_by_repr (author b) \<and> brace_free (author b) \<longrightarrow> sublist (author b) ?out)
    \<and> sublist (str_int (year b)) ?out"
    by (rule conjunct1)
  from all h c1 have "sublist (title ?hobbit) ?out" by blast
  then have 1: "sublist ''The Hobbit'' ?out" by simp
  from all g c2 have "sublist (author ?gatsby) ?out" by blast
  then have 2: "sublist ''F. Scott Fitzgerald'' ?out" by simp
  from all g have "sublist (str_int (year ?gatsby)) ?out" by blast
  then have 3: "sublist ''1925'' ?out" unfolding y .
  from t s have 4: "brace_free ?out" by blast
  from t have "prefix (''SEND_TO:'' @ ''LLM'') ?out" by blast
  then have 5: "prefix ''SEND_TO:LLM'' ?out" by simp
  from 1 2 3 4 5 show ?thesis by (intro conjI)
qed

text \<open>
  C1 as stated fails: a title with curly braces is not in the text (its braces have
  become square brackets), and the text ends with the record list and white space.
\<close>

theorem book_info_title_not_verbatim:
  "\<not> sublist ''{x}''
       (fst (book_info ''SEND_TO:'' ()
              (mk_BookInfoTool [\<lparr>title = ''{x}'', author = ''A'', year = 2000\<rparr>])))
   \<and> suffix (''=2000)] '' @ [CHR 0x0A] @ ''        '')
       (fst (book_info ''SEND_TO:'' ()
              (mk_BookInfoTool [\<lparr>title = ''{x}'', author = ''A'', year = 2000\<rparr>])))"
proof -
  let ?msg = "mk_BookInfoTool [\<lparr>title = ''{x}'', author = ''A'', year = 2000\<rparr>]"
  have y: "str_int 2000 = ''2000''" by code_simp
  have "brace_free (fst (book_info ''SEND_TO:'' () ?msg))"
    by (rule brace_free_book_info) (simp add: brace_free_def)
  moreover have "\<not> brace_free ''{x}''" by (simp add: brace_free_def)
  ultimately have 1: "\<not> sublist ''{x}'' (fst (book_info ''SEND_TO:'' () ?msg))"
    by (rule not_sublist_brace)
  have "str_list (info ?msg) = (''[BookInfo(title='' @ repr_str ''{x}'' @ '', author=''
      @ repr_str ''A'' @ '', year'') @ ''=2000)]''"
    by (simp add: mk_BookInfoTool_def str_list_def repr_BookInfo_def y)
  then have "info_str ?msg = map brace_subst (''[BookInfo(title='' @ repr_str ''{x}''
      @ '', author='' @ repr_str ''A'' @ '', year'') @ ''=2000)]''"
    unfolding info_str_map by (simp add: brace_subst_def)
  then have 2: "suffix (''=2000)] '' @ [CHR 0x0A] @ ''        '')
      (fst (book_info ''SEND_TO:'' () ?msg))"
    unfolding book_info_split suffix_def nl_def by simp
  from 1 2 show ?thesis by (rule conjI)
qed

text \<open>
  C5.  The two \<open>replace\<close> calls act on every character of the string form of the
  record list: the result is that string with each \<open>{\<close> turned into \<open>[\<close> and each
  \<open>}\<close> into \<open>]\<close>, so no curly brace is left, those inside the field values
  included.  The \<open>repr\<close> of every title and author is in the returned text with its
  braces replaced, and so is the field's own text when \<open>repr\<close> copies it; a title or
  author that has a curly brace is therefore not in the returned text as it was
  (\<open>SEND_TO\<close>, the only other variable part, having no brace).
\<close>

theorem brace_substitution_everywhere:
  "info_str msg = map brace_subst (str_list (info msg))
   \<and> brace_free (info_str msg)
   \<and> (\<forall>b \<in> set (info msg).
        sublist (map brace_subst (repr_str (title b))) (fst (book_info SEND_TO self msg))
      \<and> sublist (map brace_subst (repr_str (author b))) (fst (book_info SEND_TO self msg))
      \<and> (copied_by_repr (title b)
           \<longrightarrow> sublist (map brace_subst (title b)) (fst (book_info SEND_TO self msg)))
      \<and> (copied_by_repr (author b)
           \<longrightarrow> sublist (map brace_subst (author b)) (fst (book_info SEND_TO self msg)))
      \<and> (brace_free SEND_TO \<and> \<not> brace_free (title b)
           \<longrightarrow> \<not> sublist (title b) (fst (book_info SEND_TO self msg)))
      \<and> (brace_free SEND_TO \<and> \<not> brace_free (author b)
           \<longrightarrow> \<not> sublist (author b) (fst (book_info SEND_TO self msg))))"
proof (intro conjI ballI impI)
  show "info_str msg = map brace_subst (str_list (info msg))" by (rule info_str_map)
next
  show "brace_free (info_str msg)" by (rule brace_free_info_str)
next
  fix b
  assume b: "b \<in> set (info msg)"
  show t: "sublist (map brace_subst (repr_str (title b))) (fst (book_info SEND_TO self msg))"
    using b sublist_title by (rule rendered_field)
  show a: "sublist (map brace_subst (repr_str (author b))) (fst (book_info SEND_TO self msg))"
    using b sublist_author by (rule rendered_field)
  {
    assume "copied_by_repr (title b)"
    then have "sublist (map brace_subst (title b)) (map brace_subst (repr_str (title b)))"
      by (rule sublist_map_repr_str)
    then show "sublist (map brace_subst (title b)) (fst (book_info SEND_TO self msg))"
      using t by (rule sublist_chain)
  }
  {
    assume "copied_by_repr (author b)"
    then have "sublist (map brace_subst (author b)) (map brace_subst (repr_str (author b)))"
      by (rule sublist_map_repr_str)
    then show "sublist (map brace_subst (author b)) (fst (book_info SEND_TO self msg))"
      using a by (rule sublist_chain)
  }
  {
    assume "brace_free SEND_TO \<and> \<not> brace_free (title b)"
    then have s: "brace_free SEND_TO" and n: "\<not> brace_free (title b)" by simp_all
    show "\<not> sublist (title b) (fst (book_info SEND_TO self msg))"
      using brace_free_book_info [OF s] n by (rule not_sublist_brace)
  }
  {
    assume "brace_free SEND_TO \<and> \<not> brace_free (author b)"
    then have s: "brace_free SEND_TO" and n: "\<not> brace_free (author b)" by simp_all
    show "\<not> sublist (author b) (fst (book_info SEND_TO self msg))"
      using brace_free_book_info [OF s] n by (rule not_sublist_brace)
  }
qed

text \<open>A record whose title and author have braces.\<close>

theorem brace_substitution_everywhere_witness:
  "sublist ''[The] Hobbit''
     (fst (book_info ''SEND_TO:'' ()
        (mk_BookInfoTool [\<lparr>title = ''{The} Hobbit'', author = ''J.R.R. {Tolkien'', year = 1937\<rparr>])))
   \<and> \<not> sublist ''{The} Hobbit''
     (fst (book_info ''SEND_TO:'' ()
        (mk_BookInfoTool [\<lparr>title = ''{The} Hobbit'', author = ''J.R.R. {Tolkien'', year = 1937\<rparr>])))
   \<and> sublist ''J.R.R. [Tolkien''
     (fst (book_info ''SEND_TO:'' ()
        (mk_BookInfoTool [\<lparr>title = ''{The} Hobbit'', author = ''J.R.R. {Tolkien'', year = 1937\<rparr>])))
   \<and> \<not> sublist ''J.R.R. {Tolkien''
     (fst (book_info ''SEND_TO:'' ()
        (mk_BookInfoTool [\<lparr>title = ''{The} Hobbit'', author = ''J.R.R. {Tolkien'', year = 1937\<rparr>])))"
proof -
  let ?b = "\<lparr>title = ''{The} Hobbit'', author = ''J.R.R. {Tolkien'', year = 1937\<rparr>"
  let ?msg = "mk_BookInfoTool [?b]"
  let ?out = "fst (book_info ''SEND_TO:'' () ?msg)"
  have b: "?b \<in> set (info ?msg)" by (simp add: mk_BookInfoTool_def)
  have ct: "copied_by_repr (title ?b)" and ca: "copied_by_repr (author ?b)"
    by (simp_all add: copied_by_repr_def isprintable_def)
  have s: "brace_free ''SEND_TO:''" by (simp add: brace_free_def)
  have nt: "\<not> brace_free (title ?b)" and na: "\<not> brace_free (author ?b)"
    by (simp_all add: brace_free_def)
  have mt: "map brace_subst (title ?b) = ''[The] Hobbit''"
    and ma: "map brace_subst (author ?b) = ''J.R.R. [Tolkien''"
    by (simp_all add: brace_subst_def)
  note t = brace_substitution_everywhere [of ?msg "''SEND_TO:''" "()"]
  from t have all: "\<forall>b \<in> set (info ?msg).
        sublist (map brace_subst (repr_str (title b))) ?out
      \<and> sublist (map brace_subst (repr_str (author b))) ?out
      \<and> (copied_by_repr (title b) \<longrightarrow> sublist (map brace_subst (title b)) ?out)
      \<and> (copied_by_repr (author b) \<longrightarrow> sublist (map brace_subst (author b)) ?out)
      \<and> (brace_free ''SEND_TO:'' \<and> \<not> brace_free (title b) \<longrightarrow> \<not> sublist (title b) ?out)
      \<and> (brace_free ''SEND_TO:'' \<and> \<not> brace_free (author b) \<longrightarrow> \<not> sublist (author b) ?out)"
    by (elim conjE)
  from all b ct have "sublist (map brace_subst (title ?b)) ?out" by blast
  then have 1: "sublist ''[The] Hobbit'' ?out" unfolding mt .
  from all b s nt have "\<not> sublist (title ?b) ?out" by blast
  then have 2: "\<not> sublist ''{The} Hobbit'' ?out" by simp
  from all b ca have "sublist (map brace_subst (author ?b)) ?out" by blast
  then have 3: "sublist ''J.R.R. [Tolkien'' ?out" unfolding ma .
  from all b s na have "\<not> sublist (author ?b) ?out" by blast
  then have 4: "\<not> sublist ''J.R.R. {Tolkien'' ?out" by simp
  from 1 2 3 4 show ?thesis by (intro conjI)
qed

text \<open>
  C2, as the code has it.  The two sentinel markers and the restatement come from two
  methods.  \<open>handle\<close> returns the DONE marker, a space and the PASS marker, and
  nothing else.  \<open>book_info\<close> returns a text that starts with \<open>SEND_TO\<close> and
  \<open>LLM\<close> and carries the string form of the record list, braces replaced, followed
  by white space only.  What the library does on reading the markers is not the
  script's.
\<close>

theorem handle_markers_book_info_restates:
  "handle DONE PASS msg = DONE @ '' '' @ PASS
   \<and> prefix (SEND_TO @ ''LLM'') (fst (book_info SEND_TO self msg))
   \<and> sublist (map brace_subst (str_list (info msg))) (fst (book_info SEND_TO self msg))
   \<and> suffix (map brace_subst (str_list (info msg)) @ '' '' @ nl @ ''        '')
        (fst (book_info SEND_TO self msg))"
proof (intro conjI)
  show "handle DONE PASS msg = DONE @ '' '' @ PASS" by (simp add: handle_def)
  show "prefix (SEND_TO @ ''LLM'') (fst (book_info SEND_TO self msg))"
    by (rule prefix_book_info)
  show "sublist (map brace_subst (str_list (info msg))) (fst (book_info SEND_TO self msg))"
    using sublist_info_str [of msg SEND_TO self] unfolding info_str_map .
  show "suffix (map brace_subst (str_list (info msg)) @ '' '' @ nl @ ''        '')
        (fst (book_info SEND_TO self msg))"
    using suffix_book_info [of msg SEND_TO self] unfolding info_str_map .
qed

text \<open>
  C2 as stated fails for either method, here on the class's example payload with the
  strings \<open>DONE\<close>, \<open>__PASS__\<close> and \<open>SEND_TO:\<close> for the three constants: what
  \<open>handle\<close> returns restates neither a title nor a year, and what \<open>book_info\<close>
  returns has neither of the two markers.
\<close>

theorem no_handler_restates_and_signals:
  "\<not> sublist ''The Hobbit'' (handle ''DONE'' ''__PASS__'' (hd examples))
   \<and> \<not> sublist ''1937'' (handle ''DONE'' ''__PASS__'' (hd examples))
   \<and> \<not> sublist ''DONE'' (fst (book_info ''SEND_TO:'' () (hd examples)))
   \<and> \<not> sublist ''__PASS__'' (fst (book_info ''SEND_TO:'' () (hd examples)))"
proof -
  have h: "handle ''DONE'' ''__PASS__'' (hd examples) = ''DONE __PASS__''"
    by (simp add: handle_def)
  have 1: "\<not> sublist ''The Hobbit'' (handle ''DONE'' ''__PASS__'' (hd examples))"
    unfolding h by code_simp
  have 2: "\<not> sublist ''1937'' (handle ''DONE'' ''__PASS__'' (hd examples))"
    unfolding h by code_simp
  have 3: "\<not> sublist ''DONE'' (fst (book_info ''SEND_TO:'' () (hd examples)))"
    by code_simp
  have 4: "\<not> sublist ''__PASS__'' (fst (book_info ''SEND_TO:'' () (hd examples)))"
    by code_simp
  from 1 2 3 4 show ?thesis by (intro conjI)
qed

subsection \<open>The fallback handler\<close>

lemma nudge_nonempty: "nudge \<noteq> []"
  by (simp add: nudge_def nl_def)

lemma fallback_cases:
  "handle_message_fallback h self msg =
     (if fst (h self msg) then Some nudge else None, snd (h self msg))"
  by (cases "h self msg") (simp add: handle_message_fallback_def)

lemma nudge_split:
  \<open>nudge =
     (nl @ ''            '') @ ''You must use the "book_info" tool to present the info.''
     @ (nl @ ''            '') @ ''You either forgot to use it, or you used it with the wrong format.''
     @ (nl @ ''            '') @ ''Make sure all fields are filled out and pay attention to the ''
     @ (nl @ ''            '') @ ''required types of the fields.''
     @ (nl @ ''            '')\<close>
  by (simp add: nudge_def)

lemma nudge_line1: \<open>sublist ''You must use the "book_info" tool to present the info.'' nudge\<close>
  by (subst nudge_split) (rule sublist_appendI)

lemma nudge_line2:
  "sublist ''You either forgot to use it, or you used it with the wrong format.'' nudge"
proof -
  have "\<exists>ps ss. nudge
      = ps @ ''You either forgot to use it, or you used it with the wrong format.'' @ ss"
    by (subst nudge_split, subst append_assoc [symmetric], subst append_assoc [symmetric])
      (rule exI, rule exI, rule refl)
  then show ?thesis by (simp only: sublist_def)
qed

lemma nudge_line3:
  "sublist ''Make sure all fields are filled out and pay attention to the '' nudge"
  by code_simp

lemma nudge_line4: "sublist ''required types of the fields.'' nudge"
  by code_simp

lemma nudge_length: "length nudge = 275"
  by (simp add: nudge_def nl_def)

text \<open>
  C3.  The fallback handler returns a non-empty string exactly when
  \<open>has_tool_message_attempt\<close> flags the message, and \<open>None\<close> exactly when it does
  not.  The string is the fixed corrective text of the source: it tells the model to
  use the \<open>book_info\<close> tool, that it forgot the tool or used the wrong format, and to
  fill out all fields with the required types; it has 275 characters.
\<close>

theorem fallback_nudge_iff:
  \<open>((\<exists>s. fst (handle_message_fallback has_tool_message_attempt self msg) = Some s \<and> s \<noteq> [])
      \<longleftrightarrow> fst (has_tool_message_attempt self msg))
   \<and> (fst (handle_message_fallback has_tool_message_attempt self msg) = None
      \<longleftrightarrow> \<not> fst (has_tool_message_attempt self msg))
   \<and> (fst (has_tool_message_attempt self msg)
      \<longrightarrow> fst (handle_message_fallback has_tool_message_attempt self msg) = Some nudge)
   \<and> sublist ''You must use the "book_info" tool to present the info.'' nudge
   \<and> sublist ''You either forgot to use it, or you used it with the wrong format.'' nudge
   \<and> sublist ''Make sure all fields are filled out and pay attention to the '' nudge
   \<and> sublist ''required types of the fields.'' nudge
   \<and> length nudge = 275\<close>
proof (intro conjI)
  show "(\<exists>s. fst (handle_message_fallback has_tool_message_attempt self msg) = Some s \<and> s \<noteq> [])
      \<longleftrightarrow> fst (has_tool_message_attempt self msg)"
    using nudge_nonempty by (simp add: fallback_cases)
  show "fst (handle_message_fallback has_tool_message_attempt self msg) = None
      \<longleftrightarrow> \<not> fst (has_tool_message_attempt self msg)"
    by (simp add: fallback_cases)
  show "fst (has_tool_message_attempt self msg)
      \<longrightarrow> fst (handle_message_fallback has_tool_message_attempt self msg) = Some nudge"
    by (simp add: fallback_cases)
qed (rule nudge_line1 nudge_line2 nudge_line3 nudge_line4 nudge_length)+

text \<open>The check that flags the messages starting with a brace, on one message of each kind.\<close>

theorem fallback_nudge_iff_witness:
  \<open>(\<exists>s. fst (handle_message_fallback brace_check () ''{ request: book'') = Some s
         \<and> sublist ''You must use the "book_info" tool to present the info.'' s)
   \<and> fst (handle_message_fallback brace_check () ''The books are'') = None\<close>
proof -
  have f: "fst (brace_check () ''{ request: book'')" and n: "\<not> fst (brace_check () ''The books are'')"
    by (simp_all add: brace_check_def)
  note t1 = fallback_nudge_iff [of brace_check "()" "''{ request: book''"]
  note t2 = fallback_nudge_iff [of brace_check "()" "''The books are''"]
  from t1 have "fst (brace_check () ''{ request: book'')
      \<longrightarrow> fst (handle_message_fallback brace_check () ''{ request: book'') = Some nudge"
    by (elim conjE)
  with f have 1: "fst (handle_message_fallback brace_check () ''{ request: book'') = Some nudge"
    by (rule rev_mp)
  from t1 have 2: \<open>sublist ''You must use the "book_info" tool to present the info.'' nudge\<close>
    by (elim conjE)
  from t2 have "fst (handle_message_fallback brace_check () ''The books are'') = None
      \<longleftrightarrow> \<not> fst (brace_check () ''The books are'')"
    by (elim conjE)
  with n have 3: "fst (handle_message_fallback brace_check () ''The books are'') = None"
    by blast
  from 1 2 3 show ?thesis by (intro conjI exI [of _ nudge])
qed




subsection \<open>Determinism of the Assistant's handler\<close>

text \<open>
  C4.  Calling \<open>book_info\<close> a second time with the same payload, on the agent the
  first call leaves, gives the same text; the call leaves the agent as it was, and the
  text does not depend on the agent.
\<close>

theorem book_info_deterministic:
  "fst (book_info SEND_TO (snd (book_info SEND_TO self msg)) msg) = fst (book_info SEND_TO self msg)
   \<and> snd (book_info SEND_TO self msg) = self
   \<and> fst (book_info SEND_TO self msg) = fst (book_info SEND_TO self' msg)"
  by (simp add: book_info_def)

subsection \<open>The entry point\<close>

text \<open>
  C7.  \<open>chat\<close> has three parameters, hence three options, and each has its own
  default, whatever else is given.  The model name defaults to the empty string: a call
  without it is the call with the empty string.  The debug toggle and the cache-disable
  toggle default to off.  The settings passed to \<open>set_global\<close> have \<open>debug\<close> as
  given and \<open>cache\<close> the negation of the cache-disable flag, so caching is on unless
  the flag is given as true.  Every language-model configuration built has the given
  model name, or the built-in default when the name is empty or not given.
\<close>

theorem chat_options:
  "the_settings (chat_call GPT4_TURBO model debug no_cache)
     = [\<lparr>Settings_debug = (case debug of None \<Rightarrow> False | Some d \<Rightarrow> d),
         Settings_cache = (case no_cache of None \<Rightarrow> True | Some n \<Rightarrow> \<not> n)\<rparr>]
   \<and> map chat_model (the_llm_cfgs (chat_call GPT4_TURBO model debug no_cache))
     = replicate 3 (case model of None \<Rightarrow> GPT4_TURBO
                    | Some m \<Rightarrow> if m = [] then GPT4_TURBO else m)
   \<and> chat_call GPT4_TURBO None debug no_cache = chat_call GPT4_TURBO (Some []) debug no_cache
   \<and> chat_call GPT4_TURBO model None no_cache = chat_call GPT4_TURBO model (Some False) no_cache
   \<and> chat_call GPT4_TURBO model debug None = chat_call GPT4_TURBO model debug (Some False)
   \<and> chat_call GPT4_TURBO (Some m) (Some d) (Some n) = chat GPT4_TURBO m d n
   \<and> the_settings (chat GPT4_TURBO m d n) = [\<lparr>Settings_debug = d, Settings_cache = \<not> n\<rparr>]
   \<and> map chat_model (the_llm_cfgs (chat GPT4_TURBO m d n))
     = replicate 3 (if m = [] then GPT4_TURBO else m)"
proof (intro conjI)
  show "the_settings (chat_call GPT4_TURBO model debug no_cache)
     = [\<lparr>Settings_debug = (case debug of None \<Rightarrow> False | Some d \<Rightarrow> d),
         Settings_cache = (case no_cache of None \<Rightarrow> True | Some n \<Rightarrow> \<not> n)\<rparr>]"
    by (simp add: chat_call_def chat_def split: option.split)
  show "map chat_model (the_llm_cfgs (chat_call GPT4_TURBO model debug no_cache))
     = replicate 3 (case model of None \<Rightarrow> GPT4_TURBO
                    | Some m \<Rightarrow> if m = [] then GPT4_TURBO else m)"
    by (simp add: chat_call_def chat_def doc_agent_cfg_def llm_cfg_def py_or_def
        numeral_3_eq_3 split: option.split)
  show "map chat_model (the_llm_cfgs (chat GPT4_TURBO m d n))
     = replicate 3 (if m = [] then GPT4_TURBO else m)"
    by (simp add: chat_def doc_agent_cfg_def llm_cfg_def py_or_def numeral_3_eq_3)
qed (simp_all add: chat_call_def chat_def)

text \<open>
  Calls with one option given alone, and with none: a model name, the cache-disable
  flag, the debug flag.
\<close>

theorem chat_options_witness:
  "map chat_model (the_llm_cfgs (chat_call ''gpt-4-turbo'' (Some ''ollama/mistral'') None None))
     = [''ollama/mistral'', ''ollama/mistral'', ''ollama/mistral'']
   \<and> map chat_model (the_llm_cfgs (chat_call ''gpt-4-turbo'' None None None))
     = [''gpt-4-turbo'', ''gpt-4-turbo'', ''gpt-4-turbo'']
   \<and> the_settings (chat_call ''gpt-4-turbo'' None None None)
     = [\<lparr>Settings_debug = False, Settings_cache = True\<rparr>]
   \<and> the_settings (chat_call ''gpt-4-turbo'' None None (Some True))
     = [\<lparr>Settings_debug = False, Settings_cache = False\<rparr>]
   \<and> the_settings (chat_call ''gpt-4-turbo'' None (Some True) None)
     = [\<lparr>Settings_debug = True, Settings_cache = True\<rparr>]"
proof (intro conjI)
  note models = chat_options [THEN conjunct2, THEN conjunct1]
  note settings = chat_options [THEN conjunct1]
  show "map chat_model (the_llm_cfgs (chat_call ''gpt-4-turbo'' (Some ''ollama/mistral'') None None))
     = [''ollama/mistral'', ''ollama/mistral'', ''ollama/mistral'']"
    using models [of "''gpt-4-turbo''" "Some ''ollama/mistral''" None None]
    by (simp add: numeral_3_eq_3)
  show "map chat_model (the_llm_cfgs (chat_call ''gpt-4-turbo'' None None None))
     = [''gpt-4-turbo'', ''gpt-4-turbo'', ''gpt-4-turbo'']"
    using models [of "''gpt-4-turbo''" None None None] by (simp add: numeral_3_eq_3)
  show "the_settings (chat_call ''gpt-4-turbo'' None None None)
     = [\<lparr>Settings_debug = False, Settings_cache = True\<rparr>]"
    using settings [of "''gpt-4-turbo''" None None None] by simp
  show "the_settings (chat_call ''gpt-4-turbo'' None None (Some True))
     = [\<lparr>Settings_debug = False, Settings_cache = False\<rparr>]"
    using settings [of "''gpt-4-turbo''" None None "Some True"] by simp
  show "the_settings (chat_call ''gpt-4-turbo'' None (Some True) None)
     = [\<lparr>Settings_debug = True, Settings_cache = True\<rparr>]"
    using settings [of "''gpt-4-turbo''" None "Some True" None] by simp
qed

text \<open>
  C8.  The script makes three tasks, for the document agent, the Extractor and the
  Assistant.  The Assistant task gets the Extractor task as its only sub-task, the
  Extractor task the document task; the document task gets none and the Assistant task
  is nobody's sub-task.  The one \<open>run\<close> is on the Assistant task and is the last
  call.
\<close>

theorem task_chain:
  "the_tasks (chat GPT4_TURBO model debug no_cache)
     = [(doc_task, doc_agent, ''DocAgent''),
        (extractor_task, extractor_agent, ''Extractor''),
        (assistant_task, assistant_agent, ''Assistant'')]
   \<and> sub_tasks (chat GPT4_TURBO model debug no_cache) assistant_task = [extractor_task]
   \<and> sub_tasks (chat GPT4_TURBO model debug no_cache) extractor_task = [doc_task]
   \<and> sub_tasks (chat GPT4_TURBO model debug no_cache) doc_task = []
   \<and> (\<forall>p. assistant_task \<notin> set (sub_tasks (chat GPT4_TURBO model debug no_cache) p))
   \<and> runs (chat GPT4_TURBO model debug no_cache) = [assistant_task]
   \<and> last (chat GPT4_TURBO model debug no_cache) = Run assistant_task"
  by (simp add: chat_def)

subsection \<open>The collection on disk\<close>

lemma run_chat_store:
  "run_chat GPT4_TURBO model debug no_cache st
     = st((''.lancedb/data/'', ''book_info'') \<mapsto> [''examples/docqa/books.txt''])"
  by (simp add: run_chat_def chat_def doc_agent_cfg_def vecdb_cfg_def open_collection_def
      add_to_collection_def)

text \<open>
  C9.  Whatever the options, the document agent is the only one given a vector store,
  and its configuration has \<open>replace_collection\<close> true, the storage path
  \<open>.lancedb/data/\<close> and the collection name \<open>book_info\<close>.  So, whatever the store
  held before a run, after it the collection \<open>book_info\<close> under that path holds the
  ingested document and nothing else, and the other collections are as they were: the
  collection is overwritten, not added to.  A second run leaves the store of the first.
\<close>

theorem vecdb_replaced:
  "the_vecdbs (chat GPT4_TURBO model debug no_cache)
     = [(doc_agent, Some vecdb_cfg), (extractor_agent, None), (assistant_agent, None)]
   \<and> replace_collection vecdb_cfg
   \<and> storage_path vecdb_cfg = ''.lancedb/data/''
   \<and> collection_name vecdb_cfg = ''book_info''
   \<and> run_chat GPT4_TURBO model debug no_cache st
       = st((''.lancedb/data/'', ''book_info'') \<mapsto> [''examples/docqa/books.txt''])
   \<and> run_chat GPT4_TURBO model debug no_cache st (''.lancedb/data/'', ''book_info'')
       = run_chat GPT4_TURBO model' debug' no_cache' st' (''.lancedb/data/'', ''book_info'')
   \<and> run_chat GPT4_TURBO model' debug' no_cache' (run_chat GPT4_TURBO model debug no_cache st)
       = run_chat GPT4_TURBO model debug no_cache st"
proof (intro conjI)
  show "the_vecdbs (chat GPT4_TURBO model debug no_cache)
     = [(doc_agent, Some vecdb_cfg), (extractor_agent, None), (assistant_agent, None)]"
    by (simp add: chat_def doc_agent_cfg_def)
  show "run_chat GPT4_TURBO model debug no_cache st
       = st((''.lancedb/data/'', ''book_info'') \<mapsto> [''examples/docqa/books.txt''])"
    by (rule run_chat_store)
  show "run_chat GPT4_TURBO model debug no_cache st (''.lancedb/data/'', ''book_info'')
       = run_chat GPT4_TURBO model' debug' no_cache' st' (''.lancedb/data/'', ''book_info'')"
    unfolding run_chat_store by (simp only: fun_upd_same)
  show "run_chat GPT4_TURBO model' debug' no_cache' (run_chat GPT4_TURBO model debug no_cache st)
       = run_chat GPT4_TURBO model debug no_cache st"
    unfolding run_chat_store by (simp only: fun_upd_upd)
qed (simp_all add: vecdb_cfg_def)

text \<open>A store that holds an older document in the collection, and another collection.\<close>

theorem vecdb_replaced_witness:
  "run_chat ''gpt-4-turbo'' [] False False
     ((\<lambda>k. None)((''.lancedb/data/'', ''book_info'') \<mapsto> [''old.txt''],
                  (''.lancedb/data/'', ''other'') \<mapsto> [''kept.txt'']))
     (''.lancedb/data/'', ''book_info'') = Some [''examples/docqa/books.txt'']
   \<and> run_chat ''gpt-4-turbo'' [] False False
     ((\<lambda>k. None)((''.lancedb/data/'', ''book_info'') \<mapsto> [''old.txt''],
                  (''.lancedb/data/'', ''other'') \<mapsto> [''kept.txt'']))
     (''.lancedb/data/'', ''other'') = Some [''kept.txt'']"
proof -
  let ?st = "(\<lambda>k. None)((''.lancedb/data/'', ''book_info'') \<mapsto> [''old.txt''],
                  (''.lancedb/data/'', ''other'') \<mapsto> [''kept.txt''])"
  have "run_chat ''gpt-4-turbo'' [] False False ?st
       = ?st((''.lancedb/data/'', ''book_info'') \<mapsto> [''examples/docqa/books.txt''])"
    by (rule vecdb_replaced [of "''gpt-4-turbo''" "[]" False False ?st,
          THEN conjunct2, THEN conjunct2, THEN conjunct2, THEN conjunct2, THEN conjunct1])
  then show ?thesis by simp
qed

end
